theory Spec2Isabelle
  imports Main "HOL-Library.Word"
begin

unbundle bit_operations_syntax

section \<open>Instants\<close>

text \<open>
  Go's \<^verbatim>\<open>time.Time\<close>, as far as \<^verbatim>\<open>getCalendar\<close> observes it: the instant, as whole
  seconds since the Unix epoch (\<^verbatim>\<open>t.Unix()\<close>) and the nanoseconds within that second
  (\<^verbatim>\<open>t.Nanosecond()\<close>, always below \<open>10^9\<close>). The location of a \<^verbatim>\<open>time.Time\<close> takes
  no part in \<^verbatim>\<open>Before\<close>, \<^verbatim>\<open>After\<close> or the conversion to a \<^verbatim>\<open>primitive.DateTime\<close>,
  and an instant decoded from JSON or from a query string carries no monotonic clock
  reading.
\<close>

record Time =
  unix_sec :: int
  nanosecond :: nat

definition valid_Time :: "Time \<Rightarrow> bool" where
  "valid_Time t \<longleftrightarrow> nanosecond t < 1000000000"

text \<open>
  \<^verbatim>\<open>func (t Time) Before(u Time) bool { ts := t.sec(); us := u.sec();
     return ts < us || ts == us && t.nsec() < u.nsec() }\<close>
  and \<^verbatim>\<open>After\<close> likewise, with the comparisons turned round. \<^verbatim>\<open>t.sec()\<close> counts
  the seconds from the year 1 and \<^verbatim>\<open>t.Unix()\<close> from 1970: the two differ by a
  constant, so the order is the same.
\<close>

definition Before :: "Time \<Rightarrow> Time \<Rightarrow> bool" where
  "Before t u \<longleftrightarrow>
     unix_sec t < unix_sec u \<or> (unix_sec t = unix_sec u \<and> nanosecond t < nanosecond u)"

definition After :: "Time \<Rightarrow> Time \<Rightarrow> bool" where
  "After t u \<longleftrightarrow>
     unix_sec t > unix_sec u \<or> (unix_sec t = unix_sec u \<and> nanosecond t > nanosecond u)"

text \<open>The instant as one number: nanoseconds since the epoch.\<close>

definition unix_nano :: "Time \<Rightarrow> int" where
  "unix_nano t = unix_sec t * 1000000000 + int (nanosecond t)"

text \<open>
  \<^verbatim>\<open>primitive.DateTime\<close> is an \<^verbatim>\<open>int64\<close> of milliseconds since the epoch. Arithmetic
  on \<^verbatim>\<open>int64\<close> wraps around; \<open>int64\<close> is that wrap-around on \<open>int\<close>.
\<close>

type_synonym DateTime = int

definition int64 :: "int \<Rightarrow> int" where
  "int64 x = (x + 2 ^ 63) mod 2 ^ 64 - 2 ^ 63"

text \<open>
  The driver's conversion (go.mongodb.org/mongo-driver, package primitive):
  \<^verbatim>\<open>func NewDateTimeFromTime(t time.Time) DateTime {
     return DateTime(t.Unix()*1e3 + int64(t.Nanosecond())/1e6) }\<close>
\<close>

definition NewDateTimeFromTime :: "Time \<Rightarrow> DateTime" where
  "NewDateTimeFromTime t =
     int64 (int64 (unix_sec t * 1000) + int (nanosecond t) div 1000000)"

text \<open>
  The instants whose millisecond count stays inside \<^verbatim>\<open>int64\<close>. Every instant that
  RFC 3339 can write (years 0 to 9999), hence every instant the JSON decoder or the query
  binding can deliver, is one of them.
\<close>

definition fits_DateTime :: "Time \<Rightarrow> bool" where
  "fits_DateTime t \<longleftrightarrow>
     valid_Time t \<and> - (2 ^ 63) \<le> unix_sec t * 1000 \<and> unix_sec t * 1000 + 999 < 2 ^ 63"

definition whole_millisecond :: "Time \<Rightarrow> bool" where
  "whole_millisecond t \<longleftrightarrow> nanosecond t mod 1000000 = 0"

section \<open>Slices\<close>

text \<open>
  A Go slice is either \<^verbatim>\<open>nil\<close> or holds a (possibly empty) sequence; the JSON encoder
  writes the first as \<^verbatim>\<open>null\<close> and the second as an array. \<^verbatim>\<open>make([]T, 0)\<close> is the
  empty, non-nil slice; \<^verbatim>\<open>append\<close> to any slice gives a non-nil one.
\<close>

datatype 'a slice = NilSlice | Slice "'a list"

definition make_slice :: "'a slice" where
  "make_slice = Slice []"

fun elems :: "'a slice \<Rightarrow> 'a list" where
  "elems NilSlice = []"
| "elems (Slice xs) = xs"

definition append_slice :: "'a slice \<Rightarrow> 'a \<Rightarrow> 'a slice" where
  "append_slice s x = Slice (elems s @ [x])"

section \<open>The calendar route: \<^verbatim>\<open>getCalendar\<close>\<close>

text \<open>\<^verbatim>\<open>models.CalendarEvent\<close>, with the three fields the handler fills.\<close>

record CalendarEvent =
  Summary :: string
  StartDate :: DateTime
  EndDate :: DateTime

text \<open>The query parameters bound by \<^verbatim>\<open>c.Bind(&payload)\<close>.\<close>

record Payload =
  TimeMin :: Time
  TimeMax :: Time

text \<open>The structs the handler declares to parse the provider's reply.\<close>

record TimeInfo =
  DateTime :: Time

record Item =
  Summary :: string
  Start :: TimeInfo
  End :: TimeInfo

text \<open>
  \<^verbatim>\<open>Error interface{}\<close> holds whatever JSON value stands under \<^verbatim>\<open>"error"\<close>; it is
  \<^verbatim>\<open>nil\<close> when the member is absent or \<^verbatim>\<open>null\<close>. The value is kept as its text.
\<close>

type_synonym JSONValue = string

record Response =
  Items :: "Item list"
  Error :: "JSONValue option"

text \<open>
  Two properties an item may have, used to say when an event's dates are ordered: it
  ends at least one millisecond after it starts; its start precedes its end. Both ask
  that the two instants fit a \<^verbatim>\<open>DateTime\<close>.
\<close>

definition lasts_a_millisecond :: "Item \<Rightarrow> bool" where
  "lasts_a_millisecond item \<longleftrightarrow>
     fits_DateTime (DateTime (Start item)) \<and> fits_DateTime (DateTime (End item)) \<and>
     unix_nano (DateTime (Start item)) + 1000000 \<le> unix_nano (DateTime (End item))"

definition starts_before_end :: "Item \<Rightarrow> bool" where
  "starts_before_end item \<longleftrightarrow>
     fits_DateTime (DateTime (Start item)) \<and> fits_DateTime (DateTime (End item)) \<and>
     Before (DateTime (Start item)) (DateTime (End item))"

text \<open>The struct literal of lines 137 to 141: the restructured item.\<close>

definition restructure :: "Item \<Rightarrow> CalendarEvent" where
  "restructure item =
     \<lparr> CalendarEvent.Summary = Summary item,
       StartDate = NewDateTimeFromTime (DateTime (Start item)),
       EndDate = NewDateTimeFromTime (DateTime (End item)) \<rparr>"

text \<open>
  The loop \<^verbatim>\<open>for _, item := range res.Items\<close> of lines 134 to 143, with the slice
  \<^verbatim>\<open>calendarEvents\<close> threaded through the iterations.
\<close>

fun range_Items :: "Payload \<Rightarrow> Item list \<Rightarrow> CalendarEvent slice \<Rightarrow> CalendarEvent slice" where
  "range_Items payload [] calendarEvents = calendarEvents"
| "range_Items payload (item # rest) calendarEvents =
     range_Items payload rest
       (if Before (TimeMin payload) (DateTime (Start item)) \<and>
           After (TimeMax payload) (DateTime (End item))
        then append_slice calendarEvents (restructure item)
        else calendarEvents)"

text \<open>Lines 133 to 143: the slice is made empty, then the loop runs.\<close>

definition formatResponse :: "Payload \<Rightarrow> Response \<Rightarrow> CalendarEvent slice" where
  "formatResponse payload res = range_Items payload (Items res) make_slice"

text \<open>
  The body of the provider's reply. \<^verbatim>\<open>json.NewDecoder(resp.Body).Decode(&res)\<close> is
  library code: it returns an error when the body is not JSON at all, and when any value
  in it cannot be stored in its target (a \<^verbatim>\<open>dateTime\<close> that is not an RFC 3339
  instant, a \<^verbatim>\<open>summary\<close> that is not a string). What one raw item decodes to is the
  parameter \<open>dec\<close>, with \<open>None\<close> for an item the decoder rejects; the handler sees only
  whether the one call returned an error.
\<close>

datatype 'raw body = NotJSON | Document "'raw list" "JSONValue option"

fun decode_items :: "('raw \<Rightarrow> Item option) \<Rightarrow> 'raw list \<Rightarrow> Item list option" where
  "decode_items dec [] = Some []"
| "decode_items dec (r # rs) =
     (case dec r of
        None \<Rightarrow> None
      | Some item \<Rightarrow>
          (case decode_items dec rs of
             None \<Rightarrow> None
           | Some items \<Rightarrow> Some (item # items)))"

fun Decode :: "('raw \<Rightarrow> Item option) \<Rightarrow> 'raw body \<Rightarrow> Response option" where
  "Decode dec NotJSON = None"
| "Decode dec (Document raws err) =
     (case decode_items dec raws of
        None \<Rightarrow> None
      | Some items \<Rightarrow> Some \<lparr> Items = items, Error = err \<rparr>)"

text \<open>
  What a call of the handler ends in: the binding of the query failed and the handler
  returned at once; a \<^verbatim>\<open>panic\<close>; the reply 500 carrying the parsed response; the
  reply 200 carrying the slice of events.
\<close>

datatype outcome =
  BindFailed
| Panicked
| StatusInternalServerError Response
| StatusOK "CalendarEvent slice"

text \<open>Lines 126 to 145: the parsed response is checked for an error, then formatted.\<close>

definition respond :: "Payload \<Rightarrow> Response \<Rightarrow> outcome" where
  "respond payload res =
     (if Error res \<noteq> None then StatusInternalServerError res
      else StatusOK (formatResponse payload res))"

text \<open>
  The handler. Its inputs from outside are the result of binding the query (\<open>None\<close>
  when \<^verbatim>\<open>c.Bind\<close> fails) and the result of the HTTP request (\<open>None\<close> when building or
  sending it fails). The token refresh of line 85 returns nothing to the handler.
\<close>

definition getCalendar ::
    "('raw \<Rightarrow> Item option) \<Rightarrow> Payload option \<Rightarrow> 'raw body option \<Rightarrow> outcome" where
  "getCalendar dec bound fetched =
     (case bound of
        None \<Rightarrow> BindFailed
      | Some payload \<Rightarrow>
          (case fetched of
             None \<Rightarrow> Panicked
           | Some b \<Rightarrow>
               (case Decode dec b of
                  None \<Rightarrow> Panicked
                | Some res \<Rightarrow> respond payload res)))"

section \<open>The provider factory: \<^verbatim>\<open>GetCalendarProvider\<close>\<close>

text \<open>
  \<^verbatim>\<open>models.CalendarType\<close> and \<^verbatim>\<open>models.CalendarAccount\<close> are declared outside the files
  at hand. The factory names two values of the type; Go keeps no enumeration closed, so
  any other value of the underlying type can stand in the field, and
  \<open>OtherCalendarType\<close> is every such value. The two credential bundles are pointers in
  the account (the factory dereferences them), and their contents are left open.
\<close>

datatype CalendarType = GoogleCalendarType | AppleCalendarType | OtherCalendarType string

record ('g, 'a) CalendarAccount =
  CalendarType :: CalendarType
  GoogleCalendarAuth :: "'g option"
  AppleCalendarAuth :: "'a option"

text \<open>
  A \<^verbatim>\<open>CalendarProvider\<close> is an interface value: \<^verbatim>\<open>nil\<close>, or a pointer to one of the
  two adapters, each holding the bundle it was built from.
\<close>

datatype ('g, 'a) adapter = GoogleCalendar 'g | AppleCalendar 'a

type_synonym ('g, 'a) CalendarProvider = "('g, 'a) adapter option"

datatype panic = NilPointerDereference

definition GetCalendarProvider ::
    "('g, 'a) CalendarAccount \<Rightarrow> panic + ('g, 'a) CalendarProvider" where
  "GetCalendarProvider calendarAccount =
     (case CalendarType calendarAccount of
        GoogleCalendarType \<Rightarrow>
          (case GoogleCalendarAuth calendarAccount of
             None \<Rightarrow> Inl NilPointerDereference
           | Some auth \<Rightarrow> Inr (Some (GoogleCalendar auth)))
      | AppleCalendarType \<Rightarrow>
          (case AppleCalendarAuth calendarAccount of
             None \<Rightarrow> Inl NilPointerDereference
           | Some auth \<Rightarrow> Inr (Some (AppleCalendar auth)))
      | OtherCalendarType _ \<Rightarrow> Inr None)"

section \<open>Events: \<^verbatim>\<open>Event.GetId\<close>\<close>

text \<open>
  \<^verbatim>\<open>primitive.ObjectID\<close> is \<^verbatim>\<open>[12]byte\<close>, and \<^verbatim>\<open>Hex\<close> is \<^verbatim>\<open>hex.EncodeToString\<close> of
  its bytes: two digits of \<^verbatim>\<open>"0123456789abcdef"\<close> per byte, the high four bits first.
\<close>

type_synonym ObjectID = "8 word list"

definition valid_ObjectID :: "ObjectID \<Rightarrow> bool" where
  "valid_ObjectID oid \<longleftrightarrow> length oid = 12"

definition hextable :: string where
  "hextable = ''0123456789abcdef''"

fun EncodeToString :: "8 word list \<Rightarrow> string" where
  "EncodeToString [] = []"
| "EncodeToString (v # src) =
     hextable ! unat (drop_bit 4 v) # hextable ! unat (v AND 0x0f) # EncodeToString src"

definition Hex :: "ObjectID \<Rightarrow> string" where
  "Hex oid = EncodeToString oid"

text \<open>
  The \<^verbatim>\<open>Event\<close> of the database, with its identifying and descriptive fields; a pointer
  field is an \<open>option\<close>, \<open>None\<close> for \<^verbatim>\<open>nil\<close>. The responses, remindees and attendees
  of an event play no part in \<^verbatim>\<open>GetId\<close> and are left out.
\<close>

datatype EventType = SPECIFIC_DATES | DOW | GROUP | OtherEventType string

record Event =
  Id :: ObjectID
  ShortId :: "string option"
  OwnerId :: ObjectID
  Name :: string
  Description :: "string option"
  Dates :: "DateTime list"
  NotificationsEnabled :: "bool option"
  SendEmailAfterXResponses :: "int option"
  When2meetHref :: "string option"
  CollectEmails :: "bool option"
  Type :: EventType
  BlindAvailabilityEnabled :: "bool option"
  DaysOnly :: "bool option"
  ScheduledEvent :: "CalendarEvent option"
  CalendarEventId :: string

definition GetId :: "Event \<Rightarrow> string" where
  "GetId e = (case ShortId e of Some shortId \<Rightarrow> shortId | None \<Rightarrow> Hex (Id e))"

section \<open>Sample data\<close>

text \<open>
  The window from 2024-01-01T00:00Z to 2024-01-02T00:00Z, and items around it: one from
  09:00 to 10:00 on that day; one that starts on the lower bound and ends at 01:00; one
  from 23:00 of the day before to 01:00; one of no length at 09:00.
\<close>

definition at_second :: "int \<Rightarrow> Time" where
  "at_second s = \<lparr> unix_sec = s, nanosecond = 0 \<rparr>"

definition item_from_to :: "string \<Rightarrow> Time \<Rightarrow> Time \<Rightarrow> Item" where
  "item_from_to s t u = \<lparr> Summary = s, Start = \<lparr> DateTime = t \<rparr>, End = \<lparr> DateTime = u \<rparr> \<rparr>"

definition jan1_window :: Payload where
  "jan1_window = \<lparr> TimeMin = at_second 1704067200, TimeMax = at_second 1704153600 \<rparr>"

definition empty_window :: Payload where
  "empty_window = \<lparr> TimeMin = at_second 1704153600, TimeMax = at_second 1704067200 \<rparr>"

definition item_inside :: Item where
  "item_inside = item_from_to ''standup'' (at_second 1704099600) (at_second 1704103200)"

definition item_touching :: Item where
  "item_touching = item_from_to ''new year'' (at_second 1704067200) (at_second 1704070800)"

definition item_crossing :: Item where
  "item_crossing = item_from_to ''party'' (at_second 1704063600) (at_second 1704070800)"

definition item_instant :: Item where
  "item_instant = item_from_to ''reminder'' (at_second 1704099600) (at_second 1704099600)"

definition jan1_items :: "Item list" where
  "jan1_items = [item_crossing, item_inside, item_touching]"

text \<open>The item from 09:00 to 10:00 again, starting half a millisecond later.\<close>

definition item_half_ms :: Item where
  "item_half_ms = item_from_to ''standup''
     \<lparr> unix_sec = 1704099600, nanosecond = 500000 \<rparr> (at_second 1704103200)"

text \<open>A reply of the provider that reports an error and lists nothing.\<close>

definition error_response :: Response where
  "error_response = \<lparr> Items = [], Error = Some ''Invalid Credentials'' \<rparr>"

text \<open>
  Raw items for a sample decoder: one that decodes to the item it carries, and one that
  the decoder rejects.
\<close>

datatype raw_item = WellFormed Item | Malformed

fun sample_dec :: "raw_item \<Rightarrow> Item option" where
  "sample_dec (WellFormed item) = Some item"
| "sample_dec Malformed = None"

text \<open>Three accounts, with a text standing for each credential bundle.\<close>

definition outlook_account :: "(string, string) CalendarAccount" where
  "outlook_account =
     \<lparr> CalendarType = OtherCalendarType ''outlook'',
       GoogleCalendarAuth = None, AppleCalendarAuth = None \<rparr>"

definition google_account :: "(string, string) CalendarAccount" where
  "google_account =
     \<lparr> CalendarType = GoogleCalendarType,
       GoogleCalendarAuth = Some ''access and refresh tokens'', AppleCalendarAuth = None \<rparr>"

definition apple_account :: "(string, string) CalendarAccount" where
  "apple_account =
     \<lparr> CalendarType = AppleCalendarType,
       GoogleCalendarAuth = None, AppleCalendarAuth = Some ''app password'' \<rparr>"

text \<open>An event of the database, with the short id left open.\<close>

definition sample_event :: "string option \<Rightarrow> Event" where
  "sample_event shortId =
     \<lparr> Id = [0x63, 0x5f, 0x1a, 0x00, 0xff, 0x10, 0x2b, 0x3c, 0x4d, 0x5e, 0x6f, 0x70],
       ShortId = shortId,
       OwnerId = [0, 0, 0, 0, 0, 0, 0, 0, 0, 0, 0, 1],
       Name = ''Team offsite'', Description = None, Dates = [1704067200000],
       NotificationsEnabled = None, SendEmailAfterXResponses = None,
       When2meetHref = None, CollectEmails = None, Type = SPECIFIC_DATES,
       BlindAvailabilityEnabled = None, DaysOnly = None, ScheduledEvent = None,
       CalendarEventId = [] \<rparr>"

section \<open>Facts about instants and the conversion to milliseconds\<close>

lemmas sample_defs =
  at_second_def item_from_to_def jan1_window_def empty_window_def item_inside_def
  item_touching_def item_crossing_def item_instant_def jan1_items_def item_half_ms_def

lemma Before_trans: "Before t u \<Longrightarrow> Before u v \<Longrightarrow> Before t v"
  by (auto simp: Before_def)

lemma After_Before: "After t u \<longleftrightarrow> Before u t"
  by (auto simp: Before_def After_def)

lemma Before_unix_nano:
  "valid_Time t \<Longrightarrow> valid_Time u \<Longrightarrow> Before t u \<longleftrightarrow> unix_nano t < unix_nano u"
  by (auto simp: Before_def unix_nano_def valid_Time_def)

lemma int64_id: "- (2 ^ 63) \<le> x \<Longrightarrow> x < 2 ^ 63 \<Longrightarrow> int64 x = x"
  by (simp add: int64_def)

lemma NewDateTimeFromTime_fits:
  assumes "fits_DateTime t"
  shows "NewDateTimeFromTime t = unix_nano t div 1000000"
proof -
  have "nanosecond t < 1000000000"
    using assms by (simp add: fits_DateTime_def valid_Time_def)
  then have n: "int (nanosecond t) div 1000000 \<le> 999" "0 \<le> int (nanosecond t) div 1000000"
    by simp_all
  have a: "int64 (unix_sec t * 1000) = unix_sec t * 1000"
    using assms by (intro int64_id) (simp_all add: fits_DateTime_def)
  have b: "int64 (unix_sec t * 1000 + int (nanosecond t) div 1000000) =
           unix_sec t * 1000 + int (nanosecond t) div 1000000"
    using assms n by (intro int64_id) (simp_all add: fits_DateTime_def)
  have "unix_nano t = int (nanosecond t) + (unix_sec t * 1000) * 1000000"
    by (simp add: unix_nano_def)
  then have "unix_nano t div 1000000 = int (nanosecond t) div 1000000 + unix_sec t * 1000"
    by simp
  with a b show ?thesis by (simp add: NewDateTimeFromTime_def)
qed

lemma NewDateTimeFromTime_bounds:
  assumes "fits_DateTime t"
  shows "NewDateTimeFromTime t * 1000000 \<le> unix_nano t"
    and "unix_nano t < NewDateTimeFromTime t * 1000000 + 1000000"
    and "whole_millisecond t \<Longrightarrow> NewDateTimeFromTime t * 1000000 = unix_nano t"
proof -
  have d: "NewDateTimeFromTime t = unix_nano t div 1000000"
    using assms by (rule NewDateTimeFromTime_fits)
  have split: "unix_nano t = unix_nano t div 1000000 * 1000000 + unix_nano t mod 1000000"
    by simp
  have m: "0 \<le> unix_nano t mod 1000000" "unix_nano t mod 1000000 < 1000000"
    by simp_all
  from d split m show "NewDateTimeFromTime t * 1000000 \<le> unix_nano t"
    by linarith
  from d split m show "unix_nano t < NewDateTimeFromTime t * 1000000 + 1000000"
    by linarith
  show "NewDateTimeFromTime t * 1000000 = unix_nano t" if w: "whole_millisecond t"
  proof -
    have "int (nanosecond t) mod 1000000 = 0"
      using w unfolding whole_millisecond_def by presburger
    moreover have "unix_nano t = int (nanosecond t) + (unix_sec t * 1000) * 1000000"
      by (simp add: unix_nano_def)
    then have "unix_nano t mod 1000000 =
        (int (nanosecond t) + (unix_sec t * 1000) * 1000000) mod 1000000"
      by (rule arg_cong)
    moreover have "\<dots> = int (nanosecond t) mod 1000000"
      by (rule mod_mult_self1)
    ultimately have "unix_nano t mod 1000000 = 0"
      by simp
    with d split show ?thesis by linarith
  qed
qed

lemma NewDateTimeFromTime_strict:
  assumes "fits_DateTime t" "fits_DateTime u" "unix_nano t + 1000000 \<le> unix_nano u"
  shows "NewDateTimeFromTime t < NewDateTimeFromTime u"
  using NewDateTimeFromTime_bounds(1) [OF assms(1)] NewDateTimeFromTime_bounds(2) [OF assms(2)]
    assms(3)
  by linarith

lemma NewDateTimeFromTime_mono:
  assumes "fits_DateTime t" "fits_DateTime u" "Before t u"
  shows "NewDateTimeFromTime t \<le> NewDateTimeFromTime u"
proof -
  have "unix_nano t < unix_nano u"
    using assms by (simp add: Before_unix_nano fits_DateTime_def)
  then have "unix_nano t div 1000000 \<le> unix_nano u div 1000000"
    by (intro zdiv_mono1) simp_all
  then show ?thesis
    using assms by (simp add: NewDateTimeFromTime_fits)
qed

section \<open>Facts about the loop and the decoder\<close>

lemma range_Items_acc:
  "range_Items payload items (Slice acc) =
     Slice (acc @ map restructure
       (filter (\<lambda>item. Before (TimeMin payload) (DateTime (Start item)) \<and>
                        After (TimeMax payload) (DateTime (End item))) items))"
  by (induction items arbitrary: acc) (simp_all add: append_slice_def)

lemma formatResponse_filter:
  "formatResponse payload res =
     Slice (map restructure
       (filter (\<lambda>item. Before (TimeMin payload) (DateTime (Start item)) \<and>
                        After (TimeMax payload) (DateTime (End item))) (Items res)))"
  unfolding formatResponse_def make_slice_def
  using range_Items_acc [of payload "Items res" "[]"] by simp

lemma decode_items_None:
  "r \<in> set raws \<Longrightarrow> dec r = None \<Longrightarrow> decode_items dec raws = None"
  by (induction raws) (auto split: option.splits)

lemma decode_items_Some:
  "map dec raws = map Some items \<Longrightarrow> decode_items dec raws = Some items"
  by (induction raws arbitrary: items) auto

lemma EncodeToString_length: "length (EncodeToString src) = 2 * length src"
  by (induction src) simp_all

lemma Hex_length: "valid_ObjectID oid \<Longrightarrow> length (Hex oid) = 24"
  by (simp add: Hex_def valid_ObjectID_def EncodeToString_length)

lemma Hex_sample: "Hex (Id (sample_event s)) = ''635f1a00ff102b3c4d5e6f70''"
  by (simp add: Hex_def sample_event_def hextable_def)

section \<open>The window filter\<close>

text \<open>
  C1. For every window and every list of decoded items, the loop of \<^verbatim>\<open>getCalendar\<close>
  returns, in the order of the input, the restructured form of exactly those items whose
  start lies strictly after \<open>timeMin\<close> and whose end lies strictly before \<open>timeMax\<close>. An
  item whose start equals or precedes \<open>timeMin\<close>, or whose end equals or follows
  \<open>timeMax\<close>, fails that test and is left out; the dates of a retained event are those
  of its item, never those of the window.
\<close>

theorem getCalendar_window_filter:
  "formatResponse payload res =
     Slice (map restructure
       (filter (\<lambda>item. Before (TimeMin payload) (DateTime (Start item)) \<and>
                        After (TimeMax payload) (DateTime (End item))) (Items res)))
   \<and> (\<forall>item.
        (DateTime (Start item) = TimeMin payload \<or> Before (DateTime (Start item)) (TimeMin payload) \<or>
         DateTime (End item) = TimeMax payload \<or> After (DateTime (End item)) (TimeMax payload))
        \<longrightarrow> \<not> (Before (TimeMin payload) (DateTime (Start item)) \<and>
                After (TimeMax payload) (DateTime (End item))))"
proof
  show "formatResponse payload res =
     Slice (map restructure
       (filter (\<lambda>item. Before (TimeMin payload) (DateTime (Start item)) \<and>
                        After (TimeMax payload) (DateTime (End item))) (Items res)))"
    by (rule formatResponse_filter)
next
  show "\<forall>item.
        (DateTime (Start item) = TimeMin payload \<or> Before (DateTime (Start item)) (TimeMin payload) \<or>
         DateTime (End item) = TimeMax payload \<or> After (DateTime (End item)) (TimeMax payload))
        \<longrightarrow> \<not> (Before (TimeMin payload) (DateTime (Start item)) \<and>
                After (TimeMax payload) (DateTime (End item)))"
    by (auto simp: Before_def After_def)
qed

text \<open>
  On the window of 2024-01-01, of the three sample items only the one from 09:00 to
  10:00 is kept: the one starting on the lower bound and the one crossing it are not.
\<close>

theorem getCalendar_window_filter_witness:
  "formatResponse jan1_window \<lparr> Items = jan1_items, Error = None \<rparr> = Slice [restructure item_inside]
   \<and> DateTime (Start item_touching) = TimeMin jan1_window
   \<and> Before (DateTime (Start item_crossing)) (TimeMin jan1_window)
   \<and> \<not> (Before (TimeMin jan1_window) (DateTime (Start item_touching)) \<and>
         After (TimeMax jan1_window) (DateTime (End item_touching)))
   \<and> \<not> (Before (TimeMin jan1_window) (DateTime (Start item_crossing)) \<and>
         After (TimeMax jan1_window) (DateTime (End item_crossing)))"
proof -
  note inst = getCalendar_window_filter [of jan1_window "\<lparr> Items = jan1_items, Error = None \<rparr>"]
  have touching: "DateTime (Start item_touching) = TimeMin jan1_window"
    by (simp add: sample_defs)
  have crossing: "Before (DateTime (Start item_crossing)) (TimeMin jan1_window)"
    by (simp add: sample_defs Before_def)
  have out: "formatResponse jan1_window \<lparr> Items = jan1_items, Error = None \<rparr> =
      Slice [restructure item_inside]"
    unfolding inst [THEN conjunct1] by (simp add: sample_defs Before_def After_def)
  from inst [THEN conjunct2] touching
  have t: "\<not> (Before (TimeMin jan1_window) (DateTime (Start item_touching)) \<and>
         After (TimeMax jan1_window) (DateTime (End item_touching)))"
    by blast
  from inst [THEN conjunct2] crossing
  have c: "\<not> (Before (TimeMin jan1_window) (DateTime (Start item_crossing)) \<and>
         After (TimeMax jan1_window) (DateTime (End item_crossing)))"
    by blast
  from out touching crossing t c show ?thesis by blast
qed

text \<open>
  C9. When the window is empty or reversed (\<open>timeMin\<close> equals or follows \<open>timeMax\<close>)
  and every item starts before it ends, the filter keeps no item: the list of events is
  empty.
\<close>

theorem getCalendar_degenerate_window:
  assumes "TimeMin payload = TimeMax payload \<or> After (TimeMin payload) (TimeMax payload)"
    and "\<forall>item \<in> set (Items res). Before (DateTime (Start item)) (DateTime (End item))"
  shows "formatResponse payload res = Slice []"
proof -
  have "\<not> (Before (TimeMin payload) (DateTime (Start item)) \<and>
            After (TimeMax payload) (DateTime (End item)))"
    if "item \<in> set (Items res)" for item
  proof
    assume a: "Before (TimeMin payload) (DateTime (Start item)) \<and>
            After (TimeMax payload) (DateTime (End item))"
    from assms(2) that have "Before (DateTime (Start item)) (DateTime (End item))" by blast
    with a have "Before (TimeMin payload) (TimeMax payload)"
      by (meson Before_trans After_Before)
    with assms(1) show False
      by (auto simp: Before_def After_def)
  qed
  then have "filter (\<lambda>item. Before (TimeMin payload) (DateTime (Start item)) \<and>
                        After (TimeMax payload) (DateTime (End item))) (Items res) = []"
    by (simp add: filter_empty_conv)
  then show ?thesis
    by (simp add: formatResponse_filter)
qed

text \<open>The reversed window of 2024-01-01 keeps nothing of the item from 09:00 to 10:00.\<close>

theorem getCalendar_degenerate_window_witness:
  "After (TimeMin empty_window) (TimeMax empty_window)
   \<and> Before (DateTime (Start item_inside)) (DateTime (End item_inside))
   \<and> formatResponse empty_window \<lparr> Items = [item_inside], Error = None \<rparr> = Slice []"
proof -
  have w: "After (TimeMin empty_window) (TimeMax empty_window)"
    by (simp add: sample_defs After_def)
  have i: "Before (DateTime (Start item_inside)) (DateTime (End item_inside))"
    by (simp add: sample_defs Before_def)
  have "formatResponse empty_window \<lparr> Items = [item_inside], Error = None \<rparr> = Slice []"
    using w i by (intro getCalendar_degenerate_window) simp_all
  with w i show ?thesis by blast
qed

section \<open>The dates of an event\<close>

text \<open>
  C5, as the claim states it, fails: an item of no length inside the window is kept, and
  its event has \<open>StartDate = EndDate\<close>.
\<close>

theorem getCalendar_zero_length_event:
  "\<not> (\<forall>ev \<in> set (elems (formatResponse jan1_window \<lparr> Items = [item_instant], Error = None \<rparr>)).
        StartDate ev < EndDate ev)"
  by (simp add: formatResponse_filter sample_defs Before_def After_def restructure_def)

text \<open>
  C5, amended. Every event in the output of \<^verbatim>\<open>getCalendar\<close> is the restructured form
  of an input item that lies strictly inside the window. If every input item ends at
  least one millisecond after it starts, every event has \<open>StartDate < EndDate\<close>; if
  every input item starts before it ends, every event has \<open>StartDate \<le> EndDate\<close>. The
  loop itself never compares an item's start with its end.
\<close>

theorem getCalendar_event_dates:
  "((\<forall>item \<in> set (Items res). lasts_a_millisecond item) \<longrightarrow>
      (\<forall>ev \<in> set (elems (formatResponse payload res)). StartDate ev < EndDate ev))
   \<and> ((\<forall>item \<in> set (Items res). starts_before_end item) \<longrightarrow>
      (\<forall>ev \<in> set (elems (formatResponse payload res)). StartDate ev \<le> EndDate ev))
   \<and> (\<forall>ev \<in> set (elems (formatResponse payload res)).
        \<exists>item \<in> set (Items res). ev = restructure item \<and>
          Before (TimeMin payload) (DateTime (Start item)) \<and>
          After (TimeMax payload) (DateTime (End item)))"
proof (intro conjI impI ballI)
  fix ev
  assume items: "\<forall>item \<in> set (Items res). lasts_a_millisecond item"
    and ev: "ev \<in> set (elems (formatResponse payload res))"
  from ev obtain item where "item \<in> set (Items res)" "ev = restructure item"
    by (auto simp: formatResponse_filter)
  with items show "StartDate ev < EndDate ev"
    by (auto simp: restructure_def lasts_a_millisecond_def intro: NewDateTimeFromTime_strict)
next
  fix ev
  assume items: "\<forall>item \<in> set (Items res). starts_before_end item"
    and ev: "ev \<in> set (elems (formatResponse payload res))"
  from ev obtain item where "item \<in> set (Items res)" "ev = restructure item"
    by (auto simp: formatResponse_filter)
  with items show "StartDate ev \<le> EndDate ev"
    by (auto simp: restructure_def starts_before_end_def intro: NewDateTimeFromTime_mono)
next
  fix ev
  assume "ev \<in> set (elems (formatResponse payload res))"
  then show "\<exists>item \<in> set (Items res). ev = restructure item \<and>
          Before (TimeMin payload) (DateTime (Start item)) \<and>
          After (TimeMax payload) (DateTime (End item))"
    by (auto simp: formatResponse_filter)
qed

text \<open>The item from 09:00 to 10:00 lasts an hour, and its event's dates are ordered.\<close>

theorem getCalendar_event_dates_witness:
  "lasts_a_millisecond item_inside
   \<and> elems (formatResponse jan1_window \<lparr> Items = [item_inside], Error = None \<rparr>) =
       [restructure item_inside]
   \<and> StartDate (restructure item_inside) < EndDate (restructure item_inside)"
proof -
  have l: "lasts_a_millisecond item_inside"
    by (simp add: lasts_a_millisecond_def sample_defs fits_DateTime_def valid_Time_def unix_nano_def)
  have m: "elems (formatResponse jan1_window \<lparr> Items = [item_inside], Error = None \<rparr>) =
       [restructure item_inside]"
    unfolding formatResponse_filter by (simp add: sample_defs Before_def After_def)
  from l have "\<forall>item \<in> set (Items \<lparr> Items = [item_inside], Error = None \<rparr>). lasts_a_millisecond item"
    by simp
  with getCalendar_event_dates [of "\<lparr> Items = [item_inside], Error = None \<rparr>" jan1_window]
  have "\<forall>ev \<in> set (elems (formatResponse jan1_window \<lparr> Items = [item_inside], Error = None \<rparr>)).
          StartDate ev < EndDate ev"
    by blast
  with m have "StartDate (restructure item_inside) < EndDate (restructure item_inside)"
    by simp
  with l m show ?thesis by blast
qed

text \<open>
  C4, as the claim states it, fails: two items whose starts differ by half a
  millisecond are restructured to the same event, so the start instant cannot be read
  back from the event.
\<close>

theorem restructure_drops_submillisecond:
  "restructure item_half_ms = restructure item_inside
   \<and> DateTime (Start item_half_ms) \<noteq> DateTime (Start item_inside)
   \<and> Before (DateTime (Start item_inside)) (DateTime (Start item_half_ms))"
  by (simp add: restructure_def sample_defs NewDateTimeFromTime_def int64_def Before_def)

text \<open>
  C4, amended. Restructuring an item keeps its summary exactly and its start and end
  to the millisecond: \<open>StartDate\<close> and \<open>EndDate\<close> are the instants' milliseconds since
  the epoch, rounded down. The instant lies in the millisecond the date names, and an
  instant that is a whole number of milliseconds is kept exactly.
\<close>

theorem restructure_millisecond_precision:
  "CalendarEvent.Summary (restructure item) = Summary item
   \<and> (fits_DateTime (DateTime (Start item)) \<longrightarrow>
        StartDate (restructure item) * 1000000 \<le> unix_nano (DateTime (Start item)) \<and>
        unix_nano (DateTime (Start item)) < StartDate (restructure item) * 1000000 + 1000000 \<and>
        (whole_millisecond (DateTime (Start item)) \<longrightarrow>
           StartDate (restructure item) * 1000000 = unix_nano (DateTime (Start item))))
   \<and> (fits_DateTime (DateTime (End item)) \<longrightarrow>
        EndDate (restructure item) * 1000000 \<le> unix_nano (DateTime (End item)) \<and>
        unix_nano (DateTime (End item)) < EndDate (restructure item) * 1000000 + 1000000 \<and>
        (whole_millisecond (DateTime (End item)) \<longrightarrow>
           EndDate (restructure item) * 1000000 = unix_nano (DateTime (End item))))"
  by (simp add: restructure_def NewDateTimeFromTime_bounds)

text \<open>The item from 09:00 to 10:00 starts and ends on whole seconds, and both are kept.\<close>

theorem restructure_millisecond_precision_witness:
  "fits_DateTime (DateTime (Start item_inside)) \<and> whole_millisecond (DateTime (Start item_inside))
   \<and> fits_DateTime (DateTime (End item_inside)) \<and> whole_millisecond (DateTime (End item_inside))
   \<and> CalendarEvent.Summary (restructure item_inside) = ''standup''
   \<and> StartDate (restructure item_inside) * 1000000 = 1704099600000000000
   \<and> EndDate (restructure item_inside) * 1000000 = 1704103200000000000"
proof -
  have f: "fits_DateTime (DateTime (Start item_inside))" "whole_millisecond (DateTime (Start item_inside))"
     "fits_DateTime (DateTime (End item_inside))" "whole_millisecond (DateTime (End item_inside))"
    by (simp_all add: sample_defs fits_DateTime_def valid_Time_def whole_millisecond_def)
  have n: "unix_nano (DateTime (Start item_inside)) = 1704099600000000000"
      "unix_nano (DateTime (End item_inside)) = 1704103200000000000"
      "Summary item_inside = ''standup''"
    by (simp_all add: sample_defs unix_nano_def)
  from restructure_millisecond_precision [of item_inside] f n
  have "CalendarEvent.Summary (restructure item_inside) = ''standup''
   \<and> StartDate (restructure item_inside) * 1000000 = 1704099600000000000
   \<and> EndDate (restructure item_inside) * 1000000 = 1704103200000000000"
    by (elim conjE) simp
  with f show ?thesis by blast
qed

section \<open>The replies of the handler\<close>

text \<open>
  C6, as the claim states it, fails: a reply of the provider that reports an error
  lists no item, so no item of it passes the filter, and the handler answers 500 with
  the parsed response, not 200 with an empty list.
\<close>

theorem getCalendar_error_response_not_success:
  "Items error_response = []
   \<and> respond jan1_window error_response = StatusInternalServerError error_response
   \<and> getCalendar sample_dec (Some jan1_window) (Some (Document [] (Some ''Invalid Credentials'')))
       = StatusInternalServerError error_response"
  by (simp add: respond_def getCalendar_def error_response_def)

text \<open>
  C6, amended. For every window and every decoded reply of the provider that reports no
  error and in which no item passes the filter (a reply with no items among them),
  \<^verbatim>\<open>getCalendar\<close> answers 200 with the empty list of events: not an error, and not the
  \<^verbatim>\<open>nil\<close> slice.
\<close>

theorem getCalendar_empty_success:
  assumes "Decode dec b = Some res"
    and "Error res = None"
    and "\<forall>item \<in> set (Items res).
           \<not> (Before (TimeMin payload) (DateTime (Start item)) \<and>
              After (TimeMax payload) (DateTime (End item)))"
  shows "getCalendar dec (Some payload) (Some b) = StatusOK (Slice [])
         \<and> respond payload res = StatusOK (Slice [])
         \<and> formatResponse payload res \<noteq> NilSlice"
proof -
  from assms(3) have "filter (\<lambda>item. Before (TimeMin payload) (DateTime (Start item)) \<and>
                        After (TimeMax payload) (DateTime (End item))) (Items res) = []"
    by (simp add: filter_empty_conv)
  then have f: "formatResponse payload res = Slice []"
    by (simp add: formatResponse_filter)
  with assms(2) have r: "respond payload res = StatusOK (Slice [])"
    by (simp add: respond_def)
  with assms(1) have "getCalendar dec (Some payload) (Some b) = StatusOK (Slice [])"
    by (simp add: getCalendar_def)
  with f r show ?thesis by simp
qed

text \<open>
  A reply whose one item crosses the lower bound, and a reply with no item at all, both
  end in 200 with the empty list.
\<close>

theorem getCalendar_empty_success_witness:
  "Decode sample_dec (Document [WellFormed item_crossing] None) =
     Some \<lparr> Items = [item_crossing], Error = None \<rparr>
   \<and> Decode sample_dec (Document [] None) = Some \<lparr> Items = [], Error = None \<rparr>
   \<and> getCalendar sample_dec (Some jan1_window) (Some (Document [WellFormed item_crossing] None))
       = StatusOK (Slice [])
   \<and> getCalendar sample_dec (Some jan1_window) (Some (Document [] None)) = StatusOK (Slice [])"
proof -
  have d1: "Decode sample_dec (Document [WellFormed item_crossing] None) =
     Some \<lparr> Items = [item_crossing], Error = None \<rparr>"
    by simp
  have d0: "Decode sample_dec (Document [] None) = Some \<lparr> Items = [], Error = None \<rparr>"
    by simp
  have g1: "getCalendar sample_dec (Some jan1_window) (Some (Document [WellFormed item_crossing] None))
       = StatusOK (Slice [])"
    using getCalendar_empty_success [OF d1, of jan1_window]
    by (simp add: sample_defs Before_def After_def)
  have g0: "getCalendar sample_dec (Some jan1_window) (Some (Document [] None)) = StatusOK (Slice [])"
    using getCalendar_empty_success [OF d0, of jan1_window] by simp
  from d1 d0 g1 g0 show ?thesis by blast
qed

text \<open>
  C3, as the claim states it, fails: a reply with one well-formed and one malformed
  item makes the one call of \<^verbatim>\<open>Decode\<close> return an error, and the handler panics. No
  item is returned and nothing is flagged.
\<close>

theorem getCalendar_malformed_item_panics:
  "sample_dec (WellFormed item_inside) = Some item_inside
   \<and> sample_dec Malformed = None
   \<and> Decode sample_dec (Document [WellFormed item_inside, Malformed] None) = None
   \<and> getCalendar sample_dec (Some jan1_window)
        (Some (Document [WellFormed item_inside, Malformed] None)) = Panicked"
  by (simp add: getCalendar_def)

text \<open>
  C3, amended. The reply is decoded as a whole. If any one of its items fails to decode,
  the decoding fails and \<^verbatim>\<open>getCalendar\<close> panics, whatever the other items are; the
  handler goes on to its answer, with all the decoded items, only when every item of
  the reply decodes.
\<close>

theorem getCalendar_decode_all_or_nothing:
  "(r \<in> set raws \<and> dec r = None \<longrightarrow>
      Decode dec (Document raws err) = None \<and>
      getCalendar dec (Some payload) (Some (Document raws err)) = Panicked)
   \<and> (map dec raws = map Some items \<longrightarrow>
      Decode dec (Document raws err) = Some \<lparr> Items = items, Error = err \<rparr> \<and>
      getCalendar dec (Some payload) (Some (Document raws err)) =
        respond payload \<lparr> Items = items, Error = err \<rparr>)"
  by (auto simp: getCalendar_def decode_items_None decode_items_Some)

text \<open>
  A reply with a malformed item after a well-formed one ends in a panic; a reply of two
  well-formed items goes on to the answer.
\<close>

theorem getCalendar_decode_all_or_nothing_witness:
  "Malformed \<in> set [WellFormed item_inside, Malformed] \<and> sample_dec Malformed = None
   \<and> getCalendar sample_dec (Some jan1_window)
        (Some (Document [WellFormed item_inside, Malformed] None)) = Panicked
   \<and> map sample_dec [WellFormed item_crossing, WellFormed item_inside] =
        map Some [item_crossing, item_inside]
   \<and> getCalendar sample_dec (Some jan1_window)
        (Some (Document [WellFormed item_crossing, WellFormed item_inside] None)) =
        respond jan1_window \<lparr> Items = [item_crossing, item_inside], Error = None \<rparr>"
proof -
  have a: "Malformed \<in> set [WellFormed item_inside, Malformed]" "sample_dec Malformed = None"
    by simp_all
  have b: "map sample_dec [WellFormed item_crossing, WellFormed item_inside] =
        map Some [item_crossing, item_inside]"
    by simp
  note inst1 = getCalendar_decode_all_or_nothing
    [of Malformed "[WellFormed item_inside, Malformed]" sample_dec None jan1_window, THEN conjunct1]
  note inst2 = getCalendar_decode_all_or_nothing
    [of _ "[WellFormed item_crossing, WellFormed item_inside]" sample_dec None jan1_window
        "[item_crossing, item_inside]", THEN conjunct2]
  from inst1 a inst2 b show ?thesis by blast
qed

section \<open>The provider factory\<close>

text \<open>
  C2, as the claim states it, fails: for an account of a type other than Google and
  Apple the factory returns \<^verbatim>\<open>nil\<close>. Its signature has no error result.
\<close>

theorem GetCalendarProvider_unknown_type_nil:
  "CalendarType outlook_account \<noteq> GoogleCalendarType
   \<and> CalendarType outlook_account \<noteq> AppleCalendarType
   \<and> GetCalendarProvider outlook_account = Inr None"
  by (simp add: GetCalendarProvider_def outlook_account_def)

text \<open>
  C2, amended. For every account whose type is neither Google nor Apple,
  \<^verbatim>\<open>GetCalendarProvider\<close> returns \<^verbatim>\<open>nil\<close>; for an account of a supported type that
  holds the credential bundle of that type, it returns the adapter of that type, bound to
  that bundle.
\<close>

theorem GetCalendarProvider_cases:
  "(CalendarType calendarAccount \<noteq> GoogleCalendarType \<and>
    CalendarType calendarAccount \<noteq> AppleCalendarType \<longrightarrow>
      GetCalendarProvider calendarAccount = Inr None)
   \<and> (CalendarType calendarAccount = GoogleCalendarType \<and>
      GoogleCalendarAuth calendarAccount = Some g \<longrightarrow>
      GetCalendarProvider calendarAccount = Inr (Some (GoogleCalendar g)))
   \<and> (CalendarType calendarAccount = AppleCalendarType \<and>
      AppleCalendarAuth calendarAccount = Some a \<longrightarrow>
      GetCalendarProvider calendarAccount = Inr (Some (AppleCalendar a)))"
  by (cases "CalendarType calendarAccount") (simp_all add: GetCalendarProvider_def)

text \<open>One account of each kind.\<close>

theorem GetCalendarProvider_cases_witness:
  "CalendarType google_account = GoogleCalendarType
   \<and> GoogleCalendarAuth google_account = Some ''access and refresh tokens''
   \<and> GetCalendarProvider google_account = Inr (Some (GoogleCalendar ''access and refresh tokens''))
   \<and> CalendarType apple_account = AppleCalendarType
   \<and> AppleCalendarAuth apple_account = Some ''app password''
   \<and> GetCalendarProvider apple_account = Inr (Some (AppleCalendar ''app password''))
   \<and> CalendarType outlook_account \<noteq> GoogleCalendarType
   \<and> CalendarType outlook_account \<noteq> AppleCalendarType
   \<and> GetCalendarProvider outlook_account = Inr None"
proof -
  have g: "CalendarType google_account = GoogleCalendarType"
      "GoogleCalendarAuth google_account = Some ''access and refresh tokens''"
    by (simp_all add: google_account_def)
  have a: "CalendarType apple_account = AppleCalendarType"
      "AppleCalendarAuth apple_account = Some ''app password''"
    by (simp_all add: apple_account_def)
  have o: "CalendarType outlook_account \<noteq> GoogleCalendarType"
      "CalendarType outlook_account \<noteq> AppleCalendarType"
    by (simp_all add: outlook_account_def)
  from GetCalendarProvider_cases [of google_account "''access and refresh tokens''"] g
  have 1: "GetCalendarProvider google_account = Inr (Some (GoogleCalendar ''access and refresh tokens''))"
    by blast
  from GetCalendarProvider_cases [of apple_account _ "''app password''"] a
  have 2: "GetCalendarProvider apple_account = Inr (Some (AppleCalendar ''app password''))"
    by blast
  from GetCalendarProvider_cases [of outlook_account] o
  have 3: "GetCalendarProvider outlook_account = Inr None"
    by blast
  from g a o 1 2 3 show ?thesis by blast
qed

section \<open>The id of an event\<close>

text \<open>
  C10. \<^verbatim>\<open>GetId\<close> returns the short id the event points to when it has one, and the
  hexadecimal form of \<open>Id\<close> otherwise; with a short id that is not the empty text, the
  result is not the empty text.
\<close>

theorem Event_GetId:
  "(\<forall>shortId. ShortId e = Some shortId \<longrightarrow>
      GetId e = shortId \<and> (shortId \<noteq> [] \<longrightarrow> GetId e \<noteq> []))
   \<and> (ShortId e = None \<longrightarrow> GetId e = Hex (Id e))"
  by (simp add: GetId_def)

text \<open>The sample event, once with a short id and once without.\<close>

theorem Event_GetId_witness:
  "ShortId (sample_event (Some ''a1B2c'')) = Some ''a1B2c''
   \<and> GetId (sample_event (Some ''a1B2c'')) = ''a1B2c''
   \<and> GetId (sample_event (Some ''a1B2c'')) \<noteq> []
   \<and> ShortId (sample_event None) = None
   \<and> GetId (sample_event None) = ''635f1a00ff102b3c4d5e6f70''"
proof -
  have s: "ShortId (sample_event (Some ''a1B2c'')) = Some ''a1B2c''"
      "ShortId (sample_event None) = None"
    by (simp_all add: sample_event_def)
  from Event_GetId [of "sample_event (Some ''a1B2c'')"] s(1)
  have 1: "GetId (sample_event (Some ''a1B2c'')) = ''a1B2c''"
      "GetId (sample_event (Some ''a1B2c'')) \<noteq> []"
    by auto
  from Event_GetId [of "sample_event None"] s(2)
  have "GetId (sample_event None) = Hex (Id (sample_event None))"
    by blast
  then have 2: "GetId (sample_event None) = ''635f1a00ff102b3c4d5e6f70''"
    by (simp only: Hex_sample)
  from s 1 2 show ?thesis by blast
qed

end
